theory Spec2Isabelle
  imports
    Complex_Main
    "HOL-Library.Product_Lexorder"
    "HOL-Library.List_Lexorder"
    "HOL-Library.Char_ord"
    "HOL-Library.Multiset"
begin

section \<open>Data model\<close>

text \<open>
  The dashboard reads the table \<^verbatim>\<open>habits\<close> into a data frame with the columns
  \<^verbatim>\<open>date\<close>, \<^verbatim>\<open>habit_name\<close> and \<^verbatim>\<open>completed\<close>. A data frame is modelled as the list
  of its rows in index order. The column \<^verbatim>\<open>date\<close> holds calendar days (the result of
  \<^verbatim>\<open>pd.to_datetime\<close> on day strings), \<^verbatim>\<open>completed\<close> holds the integers the store
  returns.
\<close>

datatype cal_date = Date (dt_year: int) (dt_month: int) (dt_day: int)

record completion_record =
  date :: cal_date
  habit_name :: string
  completed :: int

type_synonym data_frame = "completion_record list"

definition POINTS_PER_HABIT :: int where
  "POINTS_PER_HABIT = 10"

section \<open>Calendar arithmetic behind the \<^verbatim>\<open>.dt\<close> accessors\<close>

text \<open>
  The accessors \<^verbatim>\<open>.dt.year\<close>, \<^verbatim>\<open>.dt.month\<close> and \<^verbatim>\<open>.dt.isocalendar()\<close> belong to the
  data-frame library, which is not part of the repository. Year and month are the fields
  of the date. The ISO calendar is modelled by its documented contract, ISO 8601, with the
  arithmetic of the proleptic Gregorian calendar: the ordinal of a day (day 1 is
  0001-01-01), the weekday (Monday is 0) and the ISO week date (weeks start on Monday,
  week 1 is the week that holds the first Thursday of the year).
\<close>

definition is_leap :: "int \<Rightarrow> bool" where
  "is_leap y = (y mod 4 = 0 \<and> (y mod 100 \<noteq> 0 \<or> y mod 400 = 0))"

definition days_in_month :: "int \<Rightarrow> int \<Rightarrow> int" where
  "days_in_month y m =
     (if m = 2 then (if is_leap y then 29 else 28)
      else if m = 4 \<or> m = 6 \<or> m = 9 \<or> m = 11 then 30
      else 31)"

definition days_before_year :: "int \<Rightarrow> int" where
  "days_before_year y =
     (let y1 = y - 1 in y1 * 365 + y1 div 4 - y1 div 100 + y1 div 400)"

definition days_before_month :: "int \<Rightarrow> int \<Rightarrow> int" where
  "days_before_month y m = sum_list (map (days_in_month y) [1..m - 1])"

definition valid_date :: "cal_date \<Rightarrow> bool" where
  "valid_date d =
     (1 \<le> dt_month d \<and> dt_month d \<le> 12 \<and>
      1 \<le> dt_day d \<and> dt_day d \<le> days_in_month (dt_year d) (dt_month d))"

definition toordinal :: "cal_date \<Rightarrow> int" where
  "toordinal d =
     days_before_year (dt_year d) + days_before_month (dt_year d) (dt_month d) + dt_day d"

definition weekday :: "cal_date \<Rightarrow> int" where
  "weekday d = (toordinal d + 6) mod 7"

definition isoweek1monday :: "int \<Rightarrow> int" where
  "isoweek1monday y =
     (let firstday = toordinal (Date y 1 1);
          firstweekday = (firstday + 6) mod 7;
          week1monday = firstday - firstweekday
      in if firstweekday > 3 then week1monday + 7 else week1monday)"

text \<open>\<open>isocalendar d\<close> is the triple (ISO year, ISO week number, ISO weekday).\<close>

definition isocalendar :: "cal_date \<Rightarrow> int \<times> int \<times> int" where
  "isocalendar d =
     (let y = dt_year d;
          today = toordinal d;
          week = (today - isoweek1monday y) div 7;
          wd = (today - isoweek1monday y) mod 7
      in if week < 0 then
           (y - 1, (today - isoweek1monday (y - 1)) div 7 + 1,
            (today - isoweek1monday (y - 1)) mod 7 + 1)
         else if week \<ge> 52 \<and> today \<ge> isoweek1monday (y + 1) then (y + 1, 1, wd + 1)
         else (y, week + 1, wd + 1))"

definition iso_year :: "cal_date \<Rightarrow> int" where
  "iso_year d = fst (isocalendar d)"

definition iso_week :: "cal_date \<Rightarrow> int" where
  "iso_week d = fst (snd (isocalendar d))"

section \<open>Streak calculator\<close>

text \<open>
  \<^verbatim>\<open>sort_values("date")\<close> orders the rows by the instant of their date, ascending. Rows
  with equal dates keep their relative order in the model; the data model has no two
  records of one habit on one date.
\<close>

definition sort_values_date :: "data_frame \<Rightarrow> data_frame" where
  "sort_values_date df = sort_key (\<lambda>r. toordinal (date r)) df"

text \<open>
  The loop of \<^verbatim>\<open>calculate_streak\<close> over the reversed column, with the counter
  \<^verbatim>\<open>streak\<close> as accumulator; \<^verbatim>\<open>break\<close> returns the counter.
\<close>

fun streak_loop :: "int list \<Rightarrow> int \<Rightarrow> int" where
  "streak_loop [] streak = streak"
| "streak_loop (c # rest) streak =
     (if c = 1 then streak_loop rest (streak + 1) else streak)"

definition calculate_streak :: "data_frame \<Rightarrow> string \<Rightarrow> int" where
  "calculate_streak df habit =
     (let habit_df = sort_values_date (filter (\<lambda>r. habit_name r = habit) df)
      in streak_loop (rev (map completed habit_df)) 0)"

section \<open>Aggregations\<close>

text \<open>
  Percentages are floating-point numbers in the program. The model computes them in exact
  arithmetic on \<^typ>\<open>real\<close>: the sum of the column divided by the number of rows.
\<close>

definition mean :: "int list \<Rightarrow> real" where
  "mean xs = real_of_int (sum_list xs) / real (length xs)"

definition daily_df :: "data_frame \<Rightarrow> cal_date \<Rightarrow> data_frame" where
  "daily_df df selected_date = filter (\<lambda>r. date r = selected_date) df"

definition daily_completion_pct :: "data_frame \<Rightarrow> cal_date \<Rightarrow> real" where
  "daily_completion_pct df selected_date =
     (if daily_df df selected_date \<noteq> []
      then mean (map completed (daily_df df selected_date)) * 100
      else 0)"

definition daily_points :: "data_frame \<Rightarrow> cal_date \<Rightarrow> int" where
  "daily_points df selected_date =
     (if daily_df df selected_date \<noteq> []
      then sum_list (map completed (daily_df df selected_date)) * POINTS_PER_HABIT
      else 0)"

text \<open>
  \<^verbatim>\<open>groupby(keys)["completed"].mean()\<close>: one row per distinct key, keys ascending, with
  the mean of \<^verbatim>\<open>completed\<close> over the rows of the group. The next line of the program adds
  the column \<^verbatim>\<open>completion_pct\<close>.
\<close>

record 'k group_row =
  group_key :: 'k
  completed_mean :: real
  completion_pct :: real

definition groupby_mean ::
  "(completion_record \<Rightarrow> 'k::linorder) \<Rightarrow> data_frame \<Rightarrow> ('k \<times> real) list" where
  "groupby_mean key df =
     map (\<lambda>k. (k, mean (map completed (filter (\<lambda>r. key r = k) df))))
       (sort (remdups (map key df)))"

definition with_completion_pct :: "('k \<times> real) list \<Rightarrow> 'k group_row list" where
  "with_completion_pct rows =
     map (\<lambda>(k, m). \<lparr>group_key = k, completed_mean = m, completion_pct = m * 100\<rparr>) rows"

definition weekly :: "data_frame \<Rightarrow> (int \<times> int) group_row list" where
  "weekly df =
     with_completion_pct
       (groupby_mean (\<lambda>r. (dt_year (date r), iso_week (date r))) df)"

definition monthly :: "data_frame \<Rightarrow> (int \<times> int) group_row list" where
  "monthly df =
     with_completion_pct
       (groupby_mean (\<lambda>r. (dt_year (date r), dt_month (date r))) df)"

definition habit_progress :: "data_frame \<Rightarrow> string group_row list" where
  "habit_progress df = with_completion_pct (groupby_mean habit_name df)"

section \<open>The streak as the specification words it\<close>

text \<open>
  The specification's algorithm, kept apart from the program's loop: keep the records of
  the habit, order them by date ascending, and count records from the most recent one
  backward for as long as \<^verbatim>\<open>completed\<close> is 1.
\<close>

definition streak_by_spec :: "data_frame \<Rightarrow> string \<Rightarrow> int" where
  "streak_by_spec df habit =
     int (length (takeWhile (\<lambda>r. completed r = 1)
       (rev (sort_key (\<lambda>r. toordinal (date r))
          (filter (\<lambda>r. habit_name r = habit) df)))))"

text \<open>The two histories of the specification's examples.\<close>

definition read_history :: data_frame where
  "read_history =
     [\<lparr>date = Date 2025 1 1, habit_name = ''Read'', completed = 1\<rparr>,
      \<lparr>date = Date 2025 1 2, habit_name = ''Read'', completed = 1\<rparr>,
      \<lparr>date = Date 2025 1 3, habit_name = ''Read'', completed = 0\<rparr>,
      \<lparr>date = Date 2025 1 4, habit_name = ''Read'', completed = 1\<rparr>]"

definition exercise_history :: data_frame where
  "exercise_history =
     [\<lparr>date = Date 2025 1 1, habit_name = ''Exercise'', completed = 1\<rparr>,
      \<lparr>date = Date 2025 1 2, habit_name = ''Exercise'', completed = 1\<rparr>,
      \<lparr>date = Date 2025 1 3, habit_name = ''Exercise'', completed = 1\<rparr>,
      \<lparr>date = Date 2025 1 4, habit_name = ''Exercise'', completed = 1\<rparr>]"

text \<open>
  The specification's daily example: two habits on 2025-03-10, one completed and one
  not, beside a record of another day.
\<close>

definition march_log :: data_frame where
  "march_log =
     [\<lparr>date = Date 2025 3 9, habit_name = ''Read'', completed = 1\<rparr>,
      \<lparr>date = Date 2025 3 10, habit_name = ''Read'', completed = 1\<rparr>,
      \<lparr>date = Date 2025 3 10, habit_name = ''Exercise'', completed = 0\<rparr>]"

text \<open>
  A log with one record in the first days of 2024 and one on Monday 2024-12-30, a day
  whose ISO week is week 1 of ISO year 2025.
\<close>

definition year_end_log :: data_frame where
  "year_end_log =
     [\<lparr>date = Date 2024 1 1, habit_name = ''Read'', completed = 1\<rparr>,
      \<lparr>date = Date 2024 12 30, habit_name = ''Read'', completed = 0\<rparr>]"


section \<open>Facts about the loop and the sort\<close>

lemma streak_loop_takeWhile:
  "streak_loop cs n = n + int (length (takeWhile (\<lambda>c. c = 1) cs))"
  by (induction cs arbitrary: n) auto

lemma calculate_streak_trailing:
  "calculate_streak df habit =
     int (length (takeWhile (\<lambda>c. c = 1)
       (rev (map completed (sort_values_date (filter (\<lambda>r. habit_name r = habit) df))))))"
  by (simp add: calculate_streak_def streak_loop_takeWhile)






text \<open>
  The data model allows one record per date and habit. Under it the dates of a habit's
  records are pairwise different, and every ascending arrangement of the records is the
  one \<open>sort_values_date\<close> returns: how a sorting routine treats equal dates cannot
  matter there.
\<close>

lemma sort_values_date_unique:
  assumes "mset ys = mset xs"
    and "inj_on (\<lambda>r. toordinal (date r)) (set xs)"
    and "sorted (map (\<lambda>r. toordinal (date r)) ys)"
  shows "sort_values_date xs = ys"
  unfolding sort_values_date_def
  using assms by (intro sort_key_inj_key_eq) simp_all

text \<open>Reference days of the ISO calendar, at the turn of several years.\<close>

lemma isocalendar_reference_days:
  "isocalendar (Date 2021 1 1) = (2020, 53, 5)"
  "isocalendar (Date 2023 1 1) = (2022, 52, 7)"
  "isocalendar (Date 2024 12 29) = (2024, 52, 7)"
  "isocalendar (Date 2026 1 1) = (2026, 1, 4)"
  "toordinal (Date 1970 1 1) = 719163"
  by code_simp+

section \<open>Streak calculator: the claims\<close>

text \<open>
  C1. For every record set and habit name, the streak the program returns is the result
  of the specification's algorithm: filter to the habit, sort by date ascending, count
  from the most recent record backward while \<^verbatim>\<open>completed\<close> is 1. The history
  [1,1,0,1] on 2025-01-01..04 gives 1, the history [1,1,1,1] gives 4.
\<close>

theorem calculate_streak_is_spec:
  "calculate_streak df habit = streak_by_spec df habit \<and>
   calculate_streak read_history ''Read'' = 1 \<and>
   calculate_streak exercise_history ''Exercise'' = 4"
proof -
  have "calculate_streak df habit = streak_by_spec df habit"
    by (simp add: calculate_streak_trailing streak_by_spec_def sort_values_date_def
        rev_map takeWhile_map comp_def)
  moreover have "calculate_streak read_history ''Read'' = 1"
    by code_simp
  moreover have "calculate_streak exercise_history ''Exercise'' = 4"
    by code_simp
  ultimately show ?thesis by simp
qed



text \<open>
  C7. A habit name that no record of the set carries (the empty set included) has
  streak 0; the function has no failing path.
\<close>

theorem streak_unknown_habit:
  assumes "\<forall>r\<in>set df. habit_name r \<noteq> habit"
  shows "calculate_streak df habit = 0"
proof -
  have "filter (\<lambda>r. habit_name r = habit) df = []"
    using assms by (simp add: filter_empty_conv)
  then show ?thesis by (simp add: calculate_streak_def sort_values_date_def)
qed

theorem streak_unknown_habit_witness:
  "calculate_streak read_history ''Swim'' = 0 \<and> calculate_streak [] ''Swim'' = 0"
proof -
  have h: "\<forall>r\<in>set read_history. habit_name r \<noteq> ''Swim''"
    by (simp add: read_history_def)
  have e: "\<forall>r\<in>set ([]::data_frame). habit_name r \<noteq> ''Swim''"
    by simp
  show ?thesis
    using streak_unknown_habit [OF h] streak_unknown_habit [OF e] by simp
qed

text \<open>
  C10. The streak is a non-negative integer and is at most the number of records of the
  set that carry the habit's name.
\<close>

theorem streak_bounds:
  "0 \<le> calculate_streak df habit \<and>
   calculate_streak df habit \<le> int (length (filter (\<lambda>r. habit_name r = habit) df))"
proof -
  let ?cs = "rev (map completed (sort_values_date (filter (\<lambda>r. habit_name r = habit) df)))"
  have "length (takeWhile (\<lambda>c. c = 1) ?cs) \<le> length ?cs"
    by (rule length_takeWhile_le)
  also have "length ?cs = length (filter (\<lambda>r. habit_name r = habit) df)"
    by (simp add: sort_values_date_def)
  finally show ?thesis by (simp add: calculate_streak_trailing)
qed



section \<open>Aggregations: auxiliary facts\<close>

lemma sum_list_01:
  "\<forall>x\<in>set xs. x = 0 \<or> x = (1::int) \<Longrightarrow>
   sum_list xs = int (length (filter (\<lambda>x. x = 1) xs))"
  by (induction xs) auto

lemma sum_list_01_bounds:
  "\<forall>x\<in>set xs. x = 0 \<or> x = (1::int) \<Longrightarrow>
   0 \<le> sum_list xs \<and> sum_list xs \<le> int (length xs)"
  by (induction xs) auto

lemma mean_01_bounds:
  assumes "xs \<noteq> []" and "\<forall>x\<in>set xs. x = 0 \<or> x = (1::int)"
  shows "0 \<le> mean xs * 100 \<and> mean xs * 100 \<le> 100"
proof -
  have b: "0 \<le> sum_list xs \<and> sum_list xs \<le> int (length xs)"
    using assms(2) by (rule sum_list_01_bounds)
  have pos: "0 < real (length xs)" using assms(1) by simp
  have "real_of_int (sum_list xs) \<le> real (length xs)"
    using b by linarith
  then have "mean xs \<le> 1"
    using pos by (simp add: mean_def)
  moreover have "0 \<le> mean xs"
    using b by (simp add: mean_def)
  ultimately show ?thesis by simp
qed


lemma group_row_cases:
  assumes "row \<in> set (with_completion_pct (groupby_mean key df))"
  shows "\<exists>k\<in>key ` set df.
           completion_pct row = mean (map completed (filter (\<lambda>r. key r = k) df)) * 100"
  using assms by (auto simp: with_completion_pct_def groupby_mean_def)

lemma group_pct_bounds:
  assumes "\<forall>r\<in>set df. completed r = 0 \<or> completed r = 1"
    and "row \<in> set (with_completion_pct (groupby_mean key df))"
  shows "0 \<le> completion_pct row \<and> completion_pct row \<le> 100"
proof -
  obtain k where k: "k \<in> key ` set df"
    and pct: "completion_pct row = mean (map completed (filter (\<lambda>r. key r = k) df)) * 100"
    using group_row_cases [OF assms(2)] by blast
  let ?g = "map completed (filter (\<lambda>r. key r = k) df)"
  have ne: "?g \<noteq> []"
    using k by (auto simp: filter_empty_conv)
  have "\<forall>x\<in>set ?g. x = 0 \<or> x = 1"
    using assms(1) by auto
  from mean_01_bounds [OF ne this] show ?thesis by (simp add: pct)
qed

section \<open>Aggregations: the claims\<close>

text \<open>
  C4. When the reference date has records, and their \<^verbatim>\<open>completed\<close> values are 0 or 1
  as the data model requires, the daily completion percentage is the mean of
  \<^verbatim>\<open>completed\<close> (sum over count) times 100 and the daily points are the number of
  records with \<^verbatim>\<open>completed = 1\<close> times \<^verbatim>\<open>POINTS_PER_HABIT\<close>. Two records on the date
  with values 1 and 0 give 50 percent and 1 times \<^verbatim>\<open>POINTS_PER_HABIT\<close> points.
\<close>

theorem daily_metrics:
  assumes "daily_df df selected_date \<noteq> []"
    and "\<forall>r\<in>set (daily_df df selected_date). completed r = 0 \<or> completed r = 1"
  shows "daily_completion_pct df selected_date =
           real_of_int (sum_list (map completed (daily_df df selected_date)))
             / real (length (daily_df df selected_date)) * 100 \<and>
         daily_points df selected_date =
           int (length (filter (\<lambda>r. completed r = 1) (daily_df df selected_date)))
             * POINTS_PER_HABIT \<and>
         (map completed (daily_df df selected_date) = [1, 0] \<longrightarrow>
            daily_completion_pct df selected_date = 50 \<and>
            daily_points df selected_date = 1 * POINTS_PER_HABIT)"
proof -
  let ?d = "daily_df df selected_date"
  have pct: "daily_completion_pct df selected_date =
      real_of_int (sum_list (map completed ?d)) / real (length ?d) * 100"
    using assms(1) by (simp add: daily_completion_pct_def mean_def)
  have "\<forall>x\<in>set (map completed ?d). x = 0 \<or> x = 1"
    using assms(2) by simp
  then have "sum_list (map completed ?d) = int (length (filter (\<lambda>x. x = 1) (map completed ?d)))"
    by (rule sum_list_01)
  also have "\<dots> = int (length (filter (\<lambda>r. completed r = 1) ?d))"
    by (simp add: filter_map comp_def)
  finally have pts: "daily_points df selected_date =
      int (length (filter (\<lambda>r. completed r = 1) ?d)) * POINTS_PER_HABIT"
    using assms(1) by (simp add: daily_points_def)
  have ex: "daily_completion_pct df selected_date = 50 \<and>
            daily_points df selected_date = 1 * POINTS_PER_HABIT"
    if "map completed ?d = [1, 0]"
  proof -
    have "length (map completed ?d) = 2"
      by (simp only: that) simp
    then have "length ?d = 2" by simp
    then show ?thesis
      using that assms(1) by (simp add: daily_completion_pct_def daily_points_def mean_def)
  qed
  from pct pts ex show ?thesis by blast
qed

theorem daily_metrics_witness:
  "daily_completion_pct march_log (Date 2025 3 10) = 50 \<and>
   daily_points march_log (Date 2025 3 10) = 1 * POINTS_PER_HABIT \<and>
   daily_points march_log (Date 2025 3 10) = 10"
proof -
  have ne: "daily_df march_log (Date 2025 3 10) \<noteq> []"
    by (simp add: daily_df_def march_log_def)
  have zo: "\<forall>r\<in>set (daily_df march_log (Date 2025 3 10)). completed r = 0 \<or> completed r = 1"
    by (simp add: daily_df_def march_log_def)
  have cs: "map completed (daily_df march_log (Date 2025 3 10)) = [1, 0]"
    by (simp add: daily_df_def march_log_def)
  show ?thesis
    using daily_metrics [OF ne zo] cs by (simp add: POINTS_PER_HABIT_def)
qed


text \<open>
  C8. For a non-empty record set whose \<^verbatim>\<open>completed\<close> values are all 0 or 1, the daily
  percentage of any reference date and every \<^verbatim>\<open>completion_pct\<close> of the weekly, the
  monthly and the per-habit table lie between 0 and 100.
\<close>

theorem percentages_in_range:
  assumes "df \<noteq> []" and "\<forall>r\<in>set df. completed r = 0 \<or> completed r = 1"
  shows "(0 \<le> daily_completion_pct df selected_date \<and>
          daily_completion_pct df selected_date \<le> 100) \<and>
    (\<forall>row\<in>set (weekly df). 0 \<le> completion_pct row \<and> completion_pct row \<le> 100) \<and>
    (\<forall>row\<in>set (monthly df). 0 \<le> completion_pct row \<and> completion_pct row \<le> 100) \<and>
    (\<forall>row\<in>set (habit_progress df). 0 \<le> completion_pct row \<and> completion_pct row \<le> 100)"
proof -
  have daily: "0 \<le> daily_completion_pct df selected_date \<and>
      daily_completion_pct df selected_date \<le> 100"
  proof (cases "daily_df df selected_date = []")
    case True
    then show ?thesis by (simp add: daily_completion_pct_def)
  next
    case False
    let ?cs = "map completed (daily_df df selected_date)"
    have ne: "?cs \<noteq> []" using False by simp
    have "\<forall>x\<in>set ?cs. x = 0 \<or> x = 1"
      using assms(2) by (auto simp: daily_df_def)
    from mean_01_bounds [OF ne this] show ?thesis
      using False by (simp add: daily_completion_pct_def)
  qed
  have w: "\<forall>row\<in>set (weekly df). 0 \<le> completion_pct row \<and> completion_pct row \<le> 100"
    unfolding weekly_def using group_pct_bounds [OF assms(2)] by blast
  have m: "\<forall>row\<in>set (monthly df). 0 \<le> completion_pct row \<and> completion_pct row \<le> 100"
    unfolding monthly_def using group_pct_bounds [OF assms(2)] by blast
  have h: "\<forall>row\<in>set (habit_progress df). 0 \<le> completion_pct row \<and> completion_pct row \<le> 100"
    unfolding habit_progress_def using group_pct_bounds [OF assms(2)] by blast
  from daily w m h show ?thesis by blast
qed

theorem percentages_in_range_witness:
  "0 \<le> daily_completion_pct march_log (Date 2025 3 10) \<and>
   daily_completion_pct march_log (Date 2025 3 10) \<le> 100 \<and>
   0 \<le> completion_pct (hd (weekly march_log)) \<and>
   completion_pct (hd (weekly march_log)) \<le> 100 \<and>
   0 \<le> completion_pct (hd (monthly march_log)) \<and>
   completion_pct (hd (monthly march_log)) \<le> 100 \<and>
   0 \<le> completion_pct (hd (habit_progress march_log)) \<and>
   completion_pct (hd (habit_progress march_log)) \<le> 100"
proof -
  have ne: "march_log \<noteq> []"
    by (simp add: march_log_def)
  have zo: "\<forall>r\<in>set march_log. completed r = 0 \<or> completed r = 1"
    by (simp add: march_log_def)
  have w: "hd (weekly march_log) \<in> set (weekly march_log)"
    by code_simp
  have m: "hd (monthly march_log) \<in> set (monthly march_log)"
    by code_simp
  have h: "hd (habit_progress march_log) \<in> set (habit_progress march_log)"
    by code_simp
  show ?thesis
    using percentages_in_range [OF ne zo, of "Date 2025 3 10"] w m h by blast
qed


text \<open>
  C2. The specification names the key (ISO year, ISO week). The program takes the year from
  \<^verbatim>\<open>.dt.year\<close>, the calendar year, and only the week from the ISO calendar. For the
  log with records on 2024-01-01 and 2024-12-30 the ISO keys are (2024, 1) and
  (2025, 1), two periods; the program files both records under the one key (2024, 1)
  and reports the mean over both, 50 percent.
\<close>

theorem weekly_merges_year_end:
  "weekly year_end_log =
     [\<lparr>group_key = (2024, 1), completed_mean = 1 / 2, completion_pct = 50\<rparr>] \<and>
   (iso_year (Date 2024 1 1), iso_week (Date 2024 1 1)) = (2024, 1) \<and>
   (iso_year (Date 2024 12 30), iso_week (Date 2024 12 30)) = (2025, 1) \<and>
   valid_date (Date 2024 1 1) \<and> valid_date (Date 2024 12 30) \<and>
   weekday (Date 2024 12 30) = 0"
  by code_simp

end
